theory Spec2Isabelle
  imports Complex_Main
begin

section \<open>Tensors, errors and the graph under construction\<close>

text \<open>
  The model of \<^verbatim>\<open>src/model.py\<close>. A float tensor of rank 2 is the list of its rows, a
  float tensor of rank 1 a list, both over the reals: rounding of float32 is not
  modelled. The one float value that is not a real and that this code can produce from
  real inputs is the mean of an empty batch, which TensorFlow reports as NaN.

  Every call into tensorflow, tensorflow_hub or bert adds nodes to the graph that
  \<^verbatim>\<open>model_fn\<close> builds; the model records each such call, in program order, in a list of
  \<open>graph_op\<close>, and a call that raises ends the computation with the error.
\<close>

type_synonym matrix = "real list list"

datatype scalar = Num real | NaN

text \<open>The result of \<^verbatim>\<open>tf.squeeze\<close> on an int32 vector: rank 0 or rank 1.\<close>

datatype int_tensor = Int0 int | Int1 "int list"

datatype error =
    KeyError string
  | ValueError string
  | InvalidArgumentError string
  | ModuleError string

datatype graph_op =
    Hub_Module string bool
  | Module_signature string
  | Get_variable string "nat list"
  | Dropout real
  | MatMul
  | BiasAdd
  | LogSoftmax
  | OneHot "int list" nat
  | ArgMax
  | Squeeze
  | Mul
  | ReduceSum
  | Neg
  | ReduceMean
  | Create_optimizer scalar real int int bool
  | Metric string "int list" int_tensor

type_synonym 'a tf = "graph_op list \<Rightarrow> error + ('a \<times> graph_op list)"

definition return :: "'a \<Rightarrow> 'a tf" where
  "return x = (\<lambda>g. Inr (x, g))"

definition bind :: "'a tf \<Rightarrow> ('a \<Rightarrow> 'b tf) \<Rightarrow> 'b tf" where
  "bind m f = (\<lambda>g. case m g of Inl e \<Rightarrow> Inl e | Inr (x, g') \<Rightarrow> f x g')"

text \<open>A library call: it raises, or it adds its node and returns its value.\<close>

definition library_call :: "graph_op \<Rightarrow> error + 'a \<Rightarrow> 'a tf" where
  "library_call node r = (\<lambda>g. case r of Inl e \<Rightarrow> Inl e | Inr v \<Rightarrow> Inr (v, g @ [node]))"

text \<open>Python's \<^verbatim>\<open>d[key]\<close>: the graph is untouched, a missing key raises KeyError.\<close>

definition getitem :: "'a option \<Rightarrow> string \<Rightarrow> 'a tf" where
  "getitem entry key = (\<lambda>g. case entry of None \<Rightarrow> Inl (KeyError key) | Some v \<Rightarrow> Inr (v, g))"

section \<open>The values of the TensorFlow operations that create_model calls\<close>

definition dot :: "real list \<Rightarrow> real list \<Rightarrow> real" where
  "dot r w = sum_list (map2 (*) r w)"

text \<open>\<^verbatim>\<open>tf.matmul(a, b, transpose_b=True)\<close>: the inner dimensions must agree.\<close>

definition matmul_transpose_b :: "matrix \<Rightarrow> matrix \<Rightarrow> error + matrix" where
  "matmul_transpose_b a b =
     (if list_all (\<lambda>r. list_all (\<lambda>w. length r = length w) b) a
      then Inr (map (\<lambda>r. map (dot r) b) a)
      else Inl (InvalidArgumentError ''MatMul''))"

definition bias_add :: "matrix \<Rightarrow> real list \<Rightarrow> error + matrix" where
  "bias_add v bias =
     (if list_all (\<lambda>r. length r = length bias) v
      then Inr (map (\<lambda>r. map2 (+) r bias) v)
      else Inl (InvalidArgumentError ''BiasAdd''))"

text \<open>\<^verbatim>\<open>tf.nn.log_softmax(logits, axis=-1)\<close>: logits - log(reduce_sum(exp(logits), axis)).\<close>

definition log_softmax :: "matrix \<Rightarrow> matrix" where
  "log_softmax logits = map (\<lambda>r. map (\<lambda>x. x - ln (sum_list (map exp r))) r) logits"

text \<open>\<^verbatim>\<open>tf.one_hot\<close>: an index outside [0, depth) gives a row of zeros.\<close>

definition one_hot :: "int list \<Rightarrow> nat \<Rightarrow> matrix" where
  "one_hot indices depth =
     map (\<lambda>l. map (\<lambda>k. if int k = l then 1 else 0) [0..<depth]) indices"

text \<open>
  \<^verbatim>\<open>tf.argmax(input, axis=-1)\<close>: the first position of the row's maximum; an empty
  reduction axis raises.
\<close>

definition argmax_row :: "real list \<Rightarrow> int" where
  "argmax_row r = int (length (takeWhile (\<lambda>x. x < Max (set r)) r))"

definition argmax :: "matrix \<Rightarrow> error + int list" where
  "argmax input =
     (if list_all (\<lambda>r. r \<noteq> []) input
      then Inr (map argmax_row input)
      else Inl (InvalidArgumentError ''ArgMax''))"

text \<open>\<^verbatim>\<open>tf.squeeze\<close> removes every dimension of size 1: a batch of one becomes a scalar.\<close>

definition squeeze :: "int list \<Rightarrow> int_tensor" where
  "squeeze v = (case v of [x] \<Rightarrow> Int0 x | _ \<Rightarrow> Int1 v)"

text \<open>
  The \<^verbatim>\<open>*\<close> of two rank-2 tensors: elementwise, a first dimension of size 1 is
  broadcast along the other tensor's, any other mismatch raises.
\<close>

definition multiply :: "matrix \<Rightarrow> matrix \<Rightarrow> error + matrix" where
  "multiply x y =
     (if \<not> list_all (\<lambda>r. list_all (\<lambda>s. length r = length s) y) x
      then Inl (InvalidArgumentError ''Mul'')
      else if length x = length y then Inr (map2 (map2 (*)) x y)
      else if length x = 1 then Inr (map (map2 (*) (hd x)) y)
      else if length y = 1 then Inr (map (\<lambda>r. map2 (*) r (hd y)) x)
      else Inl (InvalidArgumentError ''Mul''))"

definition reduce_sum :: "matrix \<Rightarrow> real list" where
  "reduce_sum x = map sum_list x"

definition negative :: "real list \<Rightarrow> real list" where
  "negative x = map uminus x"

definition reduce_mean :: "real list \<Rightarrow> scalar" where
  "reduce_mean x = (if x = [] then NaN else Num (sum_list x / real (length x)))"

text \<open>
  \<^verbatim>\<open>tf.nn.dropout(x, keep_prob)\<close> computes x / keep_prob * floor(keep_prob + u) with u
  drawn uniformly from [0, 1) for each unit; the draw is the argument \<open>u\<close>.
\<close>

definition dropout :: "(nat \<Rightarrow> nat \<Rightarrow> real) \<Rightarrow> matrix \<Rightarrow> real \<Rightarrow> matrix" where
  "dropout u x keep_prob =
     map2 (\<lambda>i row. map2 (\<lambda>j v. v / keep_prob * of_int \<lfloor>keep_prob + u i j\<rfloor>) [0..<length row] row)
       [0..<length x] x"

section \<open>What the code takes from outside\<close>

text \<open>
  \<open>BERT_MODEL_HUB\<close> is the constant of the module \<^verbatim>\<open>defaults\<close>; \<open>pooled_output\<close> is the
  entry "pooled_output" of the hub module's signature "tokens", which may fail, and
  \<open>pooled_width\<close> its static last dimension; \<open>variable_value\<close> gives the current value of
  a variable at an index (from its initializer, a checkpoint or training);
  \<open>random_uniform\<close> is the draw of the dropout noise.
\<close>

record env =
  BERT_MODEL_HUB :: string
  pooled_output :: "int list list \<Rightarrow> int list list \<Rightarrow> int list list \<Rightarrow> error + matrix"
  pooled_width :: nat
  variable_value :: "string \<Rightarrow> nat list \<Rightarrow> real"
  random_uniform :: "nat \<Rightarrow> nat \<Rightarrow> real"

definition hub_Module :: "env \<Rightarrow> bool \<Rightarrow> (int list list \<Rightarrow> int list list \<Rightarrow> int list list \<Rightarrow> matrix tf) tf" where
  "hub_Module e trainable =
     library_call (Hub_Module (BERT_MODEL_HUB e) trainable)
       (Inr (\<lambda>input_ids input_mask segment_ids.
          library_call (Module_signature ''tokens'') (pooled_output e input_ids input_mask segment_ids)))"

definition tf_get_variable2 :: "env \<Rightarrow> string \<Rightarrow> nat \<Rightarrow> nat \<Rightarrow> matrix tf" where
  "tf_get_variable2 e name rows cols =
     library_call (Get_variable name [rows, cols])
       (Inr (map (\<lambda>i. map (\<lambda>j. variable_value e name [i, j]) [0..<cols]) [0..<rows]))"

definition tf_get_variable1 :: "env \<Rightarrow> string \<Rightarrow> nat \<Rightarrow> real list tf" where
  "tf_get_variable1 e name n =
     library_call (Get_variable name [n]) (Inr (map (\<lambda>i. variable_value e name [i]) [0..<n]))"

definition tf_nn_dropout :: "env \<Rightarrow> matrix \<Rightarrow> real \<Rightarrow> matrix tf" where
  "tf_nn_dropout e x keep_prob =
     library_call (Dropout keep_prob) (Inr (dropout (random_uniform e) x keep_prob))"

definition tf_matmul :: "matrix \<Rightarrow> matrix \<Rightarrow> matrix tf" where
  "tf_matmul a b = library_call MatMul (matmul_transpose_b a b)"

definition tf_nn_bias_add :: "matrix \<Rightarrow> real list \<Rightarrow> matrix tf" where
  "tf_nn_bias_add v bias = library_call BiasAdd (bias_add v bias)"

definition tf_nn_log_softmax :: "matrix \<Rightarrow> matrix tf" where
  "tf_nn_log_softmax logits = library_call LogSoftmax (Inr (log_softmax logits))"

definition tf_one_hot :: "int list \<Rightarrow> nat \<Rightarrow> matrix tf" where
  "tf_one_hot indices depth = library_call (OneHot indices depth) (Inr (one_hot indices depth))"

definition tf_argmax :: "matrix \<Rightarrow> int list tf" where
  "tf_argmax input = library_call ArgMax (argmax input)"

definition tf_squeeze :: "int list \<Rightarrow> int_tensor tf" where
  "tf_squeeze v = library_call Squeeze (Inr (squeeze v))"

definition tf_multiply :: "matrix \<Rightarrow> matrix \<Rightarrow> matrix tf" where
  "tf_multiply x y = library_call Mul (multiply x y)"

definition tf_reduce_sum :: "matrix \<Rightarrow> real list tf" where
  "tf_reduce_sum x = library_call ReduceSum (Inr (reduce_sum x))"

definition tf_negative :: "real list \<Rightarrow> real list tf" where
  "tf_negative x = library_call Neg (Inr (negative x))"

definition tf_reduce_mean :: "real list \<Rightarrow> scalar tf" where
  "tf_reduce_mean x = library_call ReduceMean (Inr (reduce_mean x))"

section \<open>create_model\<close>

text \<open>
  The two shapes of the result: \<^verbatim>\<open>(predicted_labels, log_probs)\<close> and
  \<^verbatim>\<open>(loss, predicted_labels, log_probs)\<close>. The function below follows the source
  line by line. \<^verbatim>\<open>hidden_size\<close> is the static last dimension of the module's output;
  \<^verbatim>\<open>tf.variable_scope("loss")\<close> only prefixes the names of the ops built inside it
  and is left out, as are the initializers, which the variables' values stand for.
\<close>

datatype create_model_result =
    LabelsAndProbs int_tensor matrix
  | LossLabelsAndProbs scalar int_tensor matrix

definition create_model ::
  "env \<Rightarrow> bool \<Rightarrow> int list list \<Rightarrow> int list list \<Rightarrow> int list list \<Rightarrow> int list \<Rightarrow> nat
     \<Rightarrow> create_model_result tf" where
  "create_model e is_predicting input_ids input_mask segment_ids labels num_labels =
     bind (hub_Module e True) (\<lambda>bert_module.
     bind (bert_module input_ids input_mask segment_ids) (\<lambda>output_layer.
     let hidden_size = pooled_width e in
     bind (tf_get_variable2 e ''output_weights'' num_labels hidden_size) (\<lambda>output_weights.
     bind (tf_get_variable1 e ''output_bias'' num_labels) (\<lambda>output_bias.
     bind (tf_nn_dropout e output_layer (9 / 10)) (\<lambda>dropout_layer.
     bind (tf_matmul dropout_layer output_weights) (\<lambda>logits.
     bind (tf_nn_bias_add logits output_bias) (\<lambda>logits.
     bind (tf_nn_log_softmax logits) (\<lambda>log_probs.
     bind (tf_one_hot labels num_labels) (\<lambda>one_hot_labels.
     bind (tf_argmax log_probs) (\<lambda>indices.
     bind (tf_squeeze indices) (\<lambda>predicted_labels.
     if is_predicting then return (LabelsAndProbs predicted_labels log_probs)
     else
       bind (tf_multiply one_hot_labels log_probs) (\<lambda>products.
       bind (tf_reduce_sum products) (\<lambda>row_sums.
       bind (tf_negative row_sums) (\<lambda>per_example_loss.
       bind (tf_reduce_mean per_example_loss) (\<lambda>loss.
       return (LossLabelsAndProbs loss predicted_labels log_probs))))))))))))))))"

section \<open>metric_fn\<close>

text \<open>
  A streaming metric of \<^verbatim>\<open>tf.metrics\<close> (or \<^verbatim>\<open>tf.contrib.metrics\<close>) is taken as the
  library gives it: the pair of ops it builds from the labels and the predictions,
  named by the function that built it.
\<close>

datatype metric = Streaming_metric string "int list" int_tensor

definition tf_metrics :: "string \<Rightarrow> int list \<Rightarrow> int_tensor \<Rightarrow> metric tf" where
  "tf_metrics name label_ids predicted_labels =
     library_call (Metric name label_ids predicted_labels)
       (Inr (Streaming_metric name label_ids predicted_labels))"

definition metric_fn :: "int list \<Rightarrow> int_tensor \<Rightarrow> (string \<rightharpoonup> metric) tf" where
  "metric_fn label_ids predicted_labels =
     bind (tf_metrics ''accuracy'' label_ids predicted_labels) (\<lambda>accuracy.
     bind (tf_metrics ''f1_score'' label_ids predicted_labels) (\<lambda>f1_score.
     bind (tf_metrics ''auc'' label_ids predicted_labels) (\<lambda>auc.
     bind (tf_metrics ''recall'' label_ids predicted_labels) (\<lambda>recall.
     bind (tf_metrics ''precision'' label_ids predicted_labels) (\<lambda>precision.
     bind (tf_metrics ''true_positives'' label_ids predicted_labels) (\<lambda>true_pos.
     bind (tf_metrics ''true_negatives'' label_ids predicted_labels) (\<lambda>true_neg.
     bind (tf_metrics ''false_positives'' label_ids predicted_labels) (\<lambda>false_pos.
     bind (tf_metrics ''false_negatives'' label_ids predicted_labels) (\<lambda>false_neg.
     return (map_of
       [(''eval_accuracy'', accuracy),
        (''f1_score'', f1_score),
        (''auc'', auc),
        (''precision'', precision),
        (''recall'', recall),
        (''true_positives'', true_pos),
        (''true_negatives'', true_neg),
        (''false_positives'', false_pos),
        (''false_negatives'', false_neg)]))))))))))"

section \<open>model_fn_builder and model_fn\<close>

text \<open>
  The values of \<^verbatim>\<open>tf.estimator.ModeKeys\<close>, as the library defines them; the results
  below use only that the three strings differ.
\<close>

definition ModeKeys_TRAIN :: string where "ModeKeys_TRAIN = ''train''"
definition ModeKeys_EVAL :: string where "ModeKeys_EVAL = ''eval''"
definition ModeKeys_PREDICT :: string where "ModeKeys_PREDICT = ''infer''"

text \<open>
  The features dictionary, at the four keys the code reads: \<open>None\<close> is a missing key,
  and the values have the shapes that create_model's signature documents.
\<close>

record features =
  feat_input_ids :: "int list list option"
  feat_input_mask :: "int list list option"
  feat_segment_ids :: "int list list option"
  feat_label_ids :: "int list option"

text \<open>
  The training step that \<^verbatim>\<open>bert.optimization.create_optimizer\<close> returns, the two
  entries of the predictions dictionary, and \<^verbatim>\<open>tf.estimator.EstimatorSpec\<close> with the
  keyword arguments the code passes (an argument it leaves out is \<open>None\<close>).
\<close>

datatype train_op = Train_op scalar real int int

datatype prediction = Float_tensor matrix | Int_tensor int_tensor

record EstimatorSpec =
  spec_mode :: string
  spec_predictions :: "(string \<rightharpoonup> prediction) option"
  spec_loss :: "scalar option"
  spec_train_op :: "train_op option"
  spec_eval_metric_ops :: "(string \<rightharpoonup> metric) option"

definition create_optimizer :: "scalar \<Rightarrow> real \<Rightarrow> int \<Rightarrow> int \<Rightarrow> bool \<Rightarrow> train_op tf" where
  "create_optimizer loss init_lr num_train_steps num_warmup_steps use_tpu =
     library_call (Create_optimizer loss init_lr num_train_steps num_warmup_steps use_tpu)
       (Inr (Train_op loss init_lr num_train_steps num_warmup_steps))"

definition model_fn ::
  "env \<Rightarrow> nat \<Rightarrow> real \<Rightarrow> int \<Rightarrow> int \<Rightarrow> features \<Rightarrow> 'l \<Rightarrow> string \<Rightarrow> 'p \<Rightarrow> EstimatorSpec tf" where
  "model_fn e num_labels learning_rate num_train_steps num_warmup_steps features labels mode params =
     bind (getitem (feat_input_ids features) ''input_ids'') (\<lambda>input_ids.
     bind (getitem (feat_input_mask features) ''input_mask'') (\<lambda>input_mask.
     bind (getitem (feat_segment_ids features) ''segment_ids'') (\<lambda>segment_ids.
     bind (getitem (feat_label_ids features) ''label_ids'') (\<lambda>label_ids.
     let is_predicting = (mode = ModeKeys_PREDICT) in
     if \<not> is_predicting then
       bind (create_model e is_predicting input_ids input_mask segment_ids label_ids num_labels) (\<lambda>r.
       case r of
         LabelsAndProbs _ _ \<Rightarrow> (\<lambda>g. Inl (ValueError ''not enough values to unpack''))
       | LossLabelsAndProbs loss predicted_labels log_probs \<Rightarrow>
           bind (create_optimizer loss learning_rate num_train_steps num_warmup_steps False) (\<lambda>train_op.
           bind (metric_fn label_ids predicted_labels) (\<lambda>eval_metrics.
           if mode = ModeKeys_TRAIN then
             return \<lparr>spec_mode = mode, spec_predictions = None, spec_loss = Some loss,
                      spec_train_op = Some train_op, spec_eval_metric_ops = None\<rparr>
           else
             return \<lparr>spec_mode = mode, spec_predictions = None, spec_loss = Some loss,
                      spec_train_op = None, spec_eval_metric_ops = Some eval_metrics\<rparr>)))
     else
       bind (create_model e is_predicting input_ids input_mask segment_ids label_ids num_labels) (\<lambda>r.
       case r of
         LossLabelsAndProbs _ _ _ \<Rightarrow> (\<lambda>g. Inl (ValueError ''too many values to unpack''))
       | LabelsAndProbs predicted_labels log_probs \<Rightarrow>
           let predictions = map_of
                 [(''probabilities'', Float_tensor log_probs),
                  (''labels'', Int_tensor predicted_labels)]
           in return \<lparr>spec_mode = mode, spec_predictions = Some predictions, spec_loss = None,
                      spec_train_op = None, spec_eval_metric_ops = None\<rparr>)))))"

definition model_fn_builder ::
  "env \<Rightarrow> nat \<Rightarrow> real \<Rightarrow> int \<Rightarrow> int \<Rightarrow> (features \<Rightarrow> 'l \<Rightarrow> string \<Rightarrow> 'p \<Rightarrow> EstimatorSpec tf)" where
  "model_fn_builder e num_labels learning_rate num_train_steps num_warmup_steps =
     model_fn e num_labels learning_rate num_train_steps num_warmup_steps"

section \<open>Derived notions used to state the results\<close>

text \<open>
  The values that \<^verbatim>\<open>tf.get_variable\<close> returns for the two variables of the head, the
  logits that create_model computes from a pooled batch (dropout, matmul, bias_add), and
  the calls create_model makes up to the branch on \<open>is_predicting\<close> and after it.
\<close>

definition output_weights_value :: "env \<Rightarrow> nat \<Rightarrow> matrix" where
  "output_weights_value e num_labels =
     map (\<lambda>i. map (\<lambda>j. variable_value e ''output_weights'' [i, j]) [0..<pooled_width e])
       [0..<num_labels]"

definition output_bias_value :: "env \<Rightarrow> nat \<Rightarrow> real list" where
  "output_bias_value e num_labels =
     map (\<lambda>i. variable_value e ''output_bias'' [i]) [0..<num_labels]"

definition head_logits :: "env \<Rightarrow> matrix \<Rightarrow> nat \<Rightarrow> matrix" where
  "head_logits e pooled num_labels =
     map (\<lambda>r. map2 (+) (map (dot r) (output_weights_value e num_labels))
                 (output_bias_value e num_labels))
       (dropout (random_uniform e) pooled (9 / 10))"

definition head_ops :: "env \<Rightarrow> int list \<Rightarrow> nat \<Rightarrow> graph_op list" where
  "head_ops e labels num_labels =
     [Hub_Module (BERT_MODEL_HUB e) True, Module_signature ''tokens'',
      Get_variable ''output_weights'' [num_labels, pooled_width e],
      Get_variable ''output_bias'' [num_labels],
      Dropout (9 / 10), MatMul, BiasAdd, LogSoftmax, OneHot labels num_labels, ArgMax, Squeeze]"

definition head_log_probs :: "env \<Rightarrow> matrix \<Rightarrow> nat \<Rightarrow> matrix" where
  "head_log_probs e pooled num_labels = log_softmax (head_logits e pooled num_labels)"

definition head_predicted_labels :: "env \<Rightarrow> matrix \<Rightarrow> nat \<Rightarrow> int_tensor" where
  "head_predicted_labels e pooled num_labels =
     squeeze (map argmax_row (head_log_probs e pooled num_labels))"

definition head_loss :: "env \<Rightarrow> matrix \<Rightarrow> int list \<Rightarrow> nat \<Rightarrow> scalar" where
  "head_loss e pooled labels num_labels =
     reduce_mean (negative (reduce_sum
       (map2 (map2 (*)) (one_hot labels num_labels) (head_log_probs e pooled num_labels))))"

definition loss_ops :: "graph_op list" where
  "loss_ops = [Mul, ReduceSum, Neg, ReduceMean]"

definition metric_ops :: "int list \<Rightarrow> int_tensor \<Rightarrow> graph_op list" where
  "metric_ops label_ids predicted_labels =
     map (\<lambda>name. Metric name label_ids predicted_labels)
       [''accuracy'', ''f1_score'', ''auc'', ''recall'', ''precision'',
        ''true_positives'', ''true_negatives'', ''false_positives'', ''false_negatives'']"

text \<open>Whether a graph op is one of the streaming metrics.\<close>

fun is_metric :: "graph_op \<Rightarrow> bool" where
  "is_metric (Metric name label_ids predicted_labels) = True"
| "is_metric other = False"

fun is_dropout :: "graph_op \<Rightarrow> bool" where
  "is_dropout (Dropout keep_prob) = True"
| "is_dropout other = False"

fun is_create_optimizer :: "graph_op \<Rightarrow> bool" where
  "is_create_optimizer (Create_optimizer loss lr steps warmup use_tpu) = True"
| "is_create_optimizer other = False"

text \<open>The components of create_model's result.\<close>

fun log_probs_of :: "create_model_result \<Rightarrow> matrix" where
  "log_probs_of (LabelsAndProbs predicted_labels log_probs) = log_probs"
| "log_probs_of (LossLabelsAndProbs loss predicted_labels log_probs) = log_probs"

fun predicted_labels_of :: "create_model_result \<Rightarrow> int_tensor" where
  "predicted_labels_of (LabelsAndProbs predicted_labels log_probs) = predicted_labels"
| "predicted_labels_of (LossLabelsAndProbs loss predicted_labels log_probs) = predicted_labels"

fun loss_of :: "create_model_result \<Rightarrow> scalar option" where
  "loss_of (LabelsAndProbs predicted_labels log_probs) = None"
| "loss_of (LossLabelsAndProbs loss predicted_labels log_probs) = Some loss"

text \<open>Whether a loss is a non-negative number; no comparison holds of NaN.\<close>

fun scalar_nonneg :: "scalar \<Rightarrow> bool" where
  "scalar_nonneg (Num x) = (0 \<le> x)"
| "scalar_nonneg NaN = False"

text \<open>The graph of a result, empty when the call raised.\<close>

definition graph_of :: "error + ('a \<times> graph_op list) \<Rightarrow> graph_op list" where
  "graph_of r = (case r of Inl err \<Rightarrow> [] | Inr (x, g) \<Rightarrow> g)"

text \<open>
  A concrete environment and a batch of two examples, for the instances: a module of
  width 2, weights [[0, 0], [1, 0]], a zero bias, and a dropout draw that keeps every
  unit.
\<close>

definition example_env :: env where
  "example_env =
     \<lparr>BERT_MODEL_HUB = ''BERT_MODEL_HUB'',
      pooled_output = (\<lambda>input_ids input_mask segment_ids.
         Inr (map (\<lambda>row. [real (length row), 1]) input_ids)),
      pooled_width = 2,
      variable_value = (\<lambda>name index.
         if name = ''output_weights'' \<and> index = [1, 0] then 1 else 0),
      random_uniform = (\<lambda>i j. 1 / 2)\<rparr>"

definition example_features :: features where
  "example_features =
     \<lparr>feat_input_ids = Some [[101, 2023, 102], [101, 2919, 102]],
      feat_input_mask = Some [[1, 1, 1], [1, 1, 1]],
      feat_segment_ids = Some [[0, 0, 0], [0, 0, 0]],
      feat_label_ids = Some [1, 0]\<rparr>"

definition example_pooled :: matrix where
  "example_pooled = [[3, 1], [3, 1]]"

section \<open>metric_fn: the mapping it returns\<close>

lemmas tf_defs = bind_def return_def library_call_def getitem_def

lemma metric_fn_result:
  "metric_fn label_ids predicted_labels g =
     Inr (map_of
       [(''eval_accuracy'', Streaming_metric ''accuracy'' label_ids predicted_labels),
        (''f1_score'', Streaming_metric ''f1_score'' label_ids predicted_labels),
        (''auc'', Streaming_metric ''auc'' label_ids predicted_labels),
        (''precision'', Streaming_metric ''precision'' label_ids predicted_labels),
        (''recall'', Streaming_metric ''recall'' label_ids predicted_labels),
        (''true_positives'', Streaming_metric ''true_positives'' label_ids predicted_labels),
        (''true_negatives'', Streaming_metric ''true_negatives'' label_ids predicted_labels),
        (''false_positives'', Streaming_metric ''false_positives'' label_ids predicted_labels),
        (''false_negatives'', Streaming_metric ''false_negatives'' label_ids predicted_labels)],
      g @ metric_ops label_ids predicted_labels)"
  by (simp add: metric_fn_def tf_metrics_def tf_defs metric_ops_def)

text \<open>
  C5. For every pair of label ids and predicted labels (and whatever the graph holds
  already), metric_fn returns, and the mapping it returns has exactly nine keys: the
  accuracy (under the key "eval_accuracy"), the F1 score ("f1_score"), the AUC ("auc"),
  "precision", "recall", "true_positives", "true_negatives", "false_positives" and
  "false_negatives"; each key holds the streaming metric of that name, built from the two
  inputs.
\<close>

theorem metric_fn_nine_keys:
  "\<exists>m g'. metric_fn label_ids predicted_labels g = Inr (m, g') \<and>
     dom m = {''eval_accuracy'', ''f1_score'', ''auc'', ''precision'', ''recall'',
       ''true_positives'', ''true_negatives'', ''false_positives'', ''false_negatives''} \<and>
     card (dom m) = 9 \<and>
     m ''eval_accuracy'' = Some (Streaming_metric ''accuracy'' label_ids predicted_labels) \<and>
     m ''f1_score'' = Some (Streaming_metric ''f1_score'' label_ids predicted_labels) \<and>
     m ''auc'' = Some (Streaming_metric ''auc'' label_ids predicted_labels) \<and>
     m ''precision'' = Some (Streaming_metric ''precision'' label_ids predicted_labels) \<and>
     m ''recall'' = Some (Streaming_metric ''recall'' label_ids predicted_labels) \<and>
     m ''true_positives'' = Some (Streaming_metric ''true_positives'' label_ids predicted_labels) \<and>
     m ''true_negatives'' = Some (Streaming_metric ''true_negatives'' label_ids predicted_labels) \<and>
     m ''false_positives'' = Some (Streaming_metric ''false_positives'' label_ids predicted_labels) \<and>
     m ''false_negatives'' = Some (Streaming_metric ''false_negatives'' label_ids predicted_labels)"
  unfolding metric_fn_result by (simp add: dom_map_of_conv_image_fst)

section \<open>Shapes, and create_model step by step\<close>

lemma dropout_rows: "list_all (\<lambda>r. length r = h) x \<Longrightarrow> list_all (\<lambda>r. length r = h) (dropout u x k)"
  by (auto simp: dropout_def list_all_iff dest: set_zip_rightD)

lemma length_dropout: "length (dropout u x k) = length x"
  by (simp add: dropout_def)

lemma matmul_ok:
  assumes "list_all (\<lambda>r. length r = h) a" and "list_all (\<lambda>w. length w = h) b"
  shows "matmul_transpose_b a b = Inr (map (\<lambda>r. map (dot r) b) a)"
  using assms by (auto simp: matmul_transpose_b_def list_all_iff)

lemma weights_rows: "list_all (\<lambda>w. length w = pooled_width e) (output_weights_value e n)"
  by (simp add: output_weights_value_def list_all_iff)

lemma logits_rows: "list_all (\<lambda>r. length r = n) (head_logits e pooled n)"
  by (simp add: head_logits_def list_all_iff output_weights_value_def output_bias_value_def)

lemma length_head_logits: "length (head_logits e pooled n) = length pooled"
  by (simp add: head_logits_def length_dropout)

lemma log_softmax_rows: "list_all (\<lambda>r. length r = n) x \<Longrightarrow> list_all (\<lambda>r. length r = n) (log_softmax x)"
  by (auto simp: log_softmax_def list_all_iff)

lemma length_log_softmax: "length (log_softmax x) = length x"
  by (simp add: log_softmax_def)

lemma one_hot_rows: "list_all (\<lambda>r. length r = n) (one_hot labels n)"
  by (simp add: one_hot_def list_all_iff)

lemma length_one_hot: "length (one_hot labels n) = length labels"
  by (simp add: one_hot_def)

lemma argmax_ok: "0 < n \<Longrightarrow> list_all (\<lambda>r. length r = n) x \<Longrightarrow> argmax x = Inr (map argmax_row x)"
  by (auto simp: argmax_def list_all_iff)

lemma multiply_ok:
  assumes "list_all (\<lambda>r. length r = n) x" and "list_all (\<lambda>r. length r = n) y" and "length x = length y"
  shows "multiply x y = Inr (map2 (map2 (*)) x y)"
  using assms by (auto simp: multiply_def list_all_iff)

text \<open>create_model, step by step, on a batch that the hub module accepts.\<close>

lemma create_model_eq:
  assumes "pooled_output e input_ids input_mask segment_ids = Inr pooled"
    and "list_all (\<lambda>r. length r = pooled_width e) pooled"
    and "0 < num_labels"
  shows "create_model e is_predicting input_ids input_mask segment_ids labels num_labels g =
     (if is_predicting
      then Inr (LabelsAndProbs (head_predicted_labels e pooled num_labels)
                  (head_log_probs e pooled num_labels),
                g @ head_ops e labels num_labels)
      else (case multiply (one_hot labels num_labels) (head_log_probs e pooled num_labels) of
          Inl err \<Rightarrow> Inl err
        | Inr products \<Rightarrow>
            Inr (LossLabelsAndProbs (reduce_mean (negative (reduce_sum products)))
                   (head_predicted_labels e pooled num_labels)
                   (head_log_probs e pooled num_labels),
                 g @ head_ops e labels num_labels @ loss_ops)))"
proof -
  have m: "matmul_transpose_b (dropout (random_uniform e) pooled (9 / 10)) (output_weights_value e num_labels)
      = Inr (map (\<lambda>r. map (dot r) (output_weights_value e num_labels)) (dropout (random_uniform e) pooled (9 / 10)))"
    by (rule matmul_ok [OF dropout_rows [OF assms(2)] weights_rows])
  have b: "bias_add (map (\<lambda>r. map (dot r) (output_weights_value e num_labels)) (dropout (random_uniform e) pooled (9 / 10)))
        (output_bias_value e num_labels) = Inr (head_logits e pooled num_labels)"
    by (simp add: bias_add_def head_logits_def list_all_iff output_weights_value_def output_bias_value_def)
  have a: "argmax (log_softmax (head_logits e pooled num_labels))
      = Inr (map argmax_row (log_softmax (head_logits e pooled num_labels)))"
    by (rule argmax_ok [OF assms(3) log_softmax_rows [OF logits_rows]])
  show ?thesis
    using assms(1) m b a
    by (simp add: create_model_def hub_Module_def tf_get_variable2_def tf_get_variable1_def
        tf_nn_dropout_def tf_matmul_def tf_nn_bias_add_def tf_nn_log_softmax_def tf_one_hot_def
        tf_argmax_def tf_squeeze_def tf_multiply_def tf_reduce_sum_def tf_negative_def
        tf_reduce_mean_def tf_defs head_ops_def loss_ops_def
        head_predicted_labels_def head_log_probs_def
        output_weights_value_def [symmetric] output_bias_value_def [symmetric]
        split: sum.splits)
qed

lemma create_model_predict:
  assumes "pooled_output e input_ids input_mask segment_ids = Inr pooled"
    and "list_all (\<lambda>r. length r = pooled_width e) pooled"
    and "0 < num_labels"
  shows "create_model e True input_ids input_mask segment_ids labels num_labels g =
     Inr (LabelsAndProbs (head_predicted_labels e pooled num_labels)
            (head_log_probs e pooled num_labels),
          g @ head_ops e labels num_labels)"
  by (simp add: create_model_eq [OF assms])

lemma create_model_train:
  assumes "pooled_output e input_ids input_mask segment_ids = Inr pooled"
    and "list_all (\<lambda>r. length r = pooled_width e) pooled"
    and "0 < num_labels"
    and "length labels = length pooled"
  shows "create_model e False input_ids input_mask segment_ids labels num_labels g =
     Inr (LossLabelsAndProbs (head_loss e pooled labels num_labels)
            (head_predicted_labels e pooled num_labels)
            (head_log_probs e pooled num_labels),
          g @ head_ops e labels num_labels @ loss_ops)"
proof -
  have "multiply (one_hot labels num_labels) (head_log_probs e pooled num_labels)
      = Inr (map2 (map2 (*)) (one_hot labels num_labels) (head_log_probs e pooled num_labels))"
    unfolding head_log_probs_def
    by (rule multiply_ok [OF one_hot_rows log_softmax_rows [OF logits_rows]])
      (simp add: length_one_hot length_log_softmax length_head_logits assms(4))
  then show ?thesis
    by (simp add: create_model_eq [OF assms(1-3)] head_loss_def)
qed

lemma bind_Inr_iff:
  "bind m f g = Inr (y, g'') \<longleftrightarrow> (\<exists>x g'. m g = Inr (x, g') \<and> f x g' = Inr (y, g''))"
  by (auto simp: bind_def split: sum.splits)

lemma library_call_Inr_iff:
  "library_call node r g = Inr (v, g') \<longleftrightarrow> r = Inr v \<and> g' = g @ [node]"
  by (auto simp: library_call_def split: sum.splits)

lemma return_Inr_iff: "return x g = Inr (y, g') \<longleftrightarrow> y = x \<and> g' = g"
  by (auto simp: return_def)

lemma getitem_Inr_iff: "getitem entry key g = Inr (v, g') \<longleftrightarrow> entry = Some v \<and> g' = g"
  by (auto simp: getitem_def split: option.splits)

lemmas tf_iffs = bind_Inr_iff library_call_Inr_iff return_Inr_iff getitem_Inr_iff

lemmas head_call_defs = hub_Module_def tf_get_variable2_def tf_get_variable1_def
  tf_nn_dropout_def tf_matmul_def tf_nn_bias_add_def tf_nn_log_softmax_def tf_one_hot_def
  tf_argmax_def tf_squeeze_def tf_multiply_def tf_reduce_sum_def tf_negative_def
  tf_reduce_mean_def

text \<open>Whatever the inputs: the calls of a create_model that returns.\<close>

lemma create_model_graph:
  assumes "create_model e is_predicting input_ids input_mask segment_ids labels num_labels g = Inr (r, g')"
  shows "g' = g @ head_ops e labels num_labels @ (if is_predicting then [] else loss_ops)"
  using assms
  by (auto simp: create_model_def head_call_defs tf_iffs head_ops_def loss_ops_def Let_def
        split: if_splits)

section \<open>model_fn: the bundle and the graph of each mode\<close>

lemma ModeKeys_distinct:
  "ModeKeys_TRAIN \<noteq> ModeKeys_PREDICT" "ModeKeys_EVAL \<noteq> ModeKeys_PREDICT"
  "ModeKeys_TRAIN \<noteq> ModeKeys_EVAL"
  by (simp_all add: ModeKeys_TRAIN_def ModeKeys_EVAL_def ModeKeys_PREDICT_def)

lemma model_fn_predict:
  assumes "feat_input_ids features = Some input_ids"
    and "feat_input_mask features = Some input_mask"
    and "feat_segment_ids features = Some segment_ids"
    and "feat_label_ids features = Some label_ids"
    and "pooled_output e input_ids input_mask segment_ids = Inr pooled"
    and "list_all (\<lambda>r. length r = pooled_width e) pooled"
    and "0 < num_labels"
  shows "model_fn e num_labels learning_rate num_train_steps num_warmup_steps features labels
           ModeKeys_PREDICT params g =
     Inr (\<lparr>spec_mode = ModeKeys_PREDICT,
           spec_predictions = Some (map_of
             [(''probabilities'', Float_tensor (head_log_probs e pooled num_labels)),
              (''labels'', Int_tensor (head_predicted_labels e pooled num_labels))]),
           spec_loss = None, spec_train_op = None, spec_eval_metric_ops = None\<rparr>,
          g @ head_ops e label_ids num_labels)"
  using assms(1-4)
  by (simp add: model_fn_def bind_def getitem_def return_def
      create_model_predict [OF assms(5-7)])

lemma model_fn_train_eval:
  assumes "feat_input_ids features = Some input_ids"
    and "feat_input_mask features = Some input_mask"
    and "feat_segment_ids features = Some segment_ids"
    and "feat_label_ids features = Some label_ids"
    and "pooled_output e input_ids input_mask segment_ids = Inr pooled"
    and "list_all (\<lambda>r. length r = pooled_width e) pooled"
    and "0 < num_labels"
    and "length label_ids = length pooled"
    and "mode \<noteq> ModeKeys_PREDICT"
  shows "model_fn e num_labels learning_rate num_train_steps num_warmup_steps features labels
           mode params g =
     Inr (\<lparr>spec_mode = mode, spec_predictions = None,
           spec_loss = Some (head_loss e pooled label_ids num_labels),
           spec_train_op =
             (if mode = ModeKeys_TRAIN
              then Some (Train_op (head_loss e pooled label_ids num_labels) learning_rate
                           num_train_steps num_warmup_steps)
              else None),
           spec_eval_metric_ops =
             (if mode = ModeKeys_TRAIN then None
              else Some (map_of
       [(''eval_accuracy'', Streaming_metric ''accuracy'' label_ids (head_predicted_labels e pooled num_labels)),
        (''f1_score'', Streaming_metric ''f1_score'' label_ids (head_predicted_labels e pooled num_labels)),
        (''auc'', Streaming_metric ''auc'' label_ids (head_predicted_labels e pooled num_labels)),
        (''precision'', Streaming_metric ''precision'' label_ids (head_predicted_labels e pooled num_labels)),
        (''recall'', Streaming_metric ''recall'' label_ids (head_predicted_labels e pooled num_labels)),
        (''true_positives'', Streaming_metric ''true_positives'' label_ids (head_predicted_labels e pooled num_labels)),
        (''true_negatives'', Streaming_metric ''true_negatives'' label_ids (head_predicted_labels e pooled num_labels)),
        (''false_positives'', Streaming_metric ''false_positives'' label_ids (head_predicted_labels e pooled num_labels)),
        (''false_negatives'', Streaming_metric ''false_negatives'' label_ids (head_predicted_labels e pooled num_labels))]))\<rparr>,
          g @ head_ops e label_ids num_labels @ loss_ops
            @ [Create_optimizer (head_loss e pooled label_ids num_labels) learning_rate
                 num_train_steps num_warmup_steps False]
            @ metric_ops label_ids (head_predicted_labels e pooled num_labels))"
  using assms(1-4,9)
  by (simp add: model_fn_def bind_def getitem_def return_def library_call_def
      create_optimizer_def metric_fn_result
      create_model_train [OF assms(5-8)])


lemma example_valid:
  "feat_input_ids example_features = Some [[101, 2023, 102], [101, 2919, 102]]"
  "feat_input_mask example_features = Some [[1, 1, 1], [1, 1, 1]]"
  "feat_segment_ids example_features = Some [[0, 0, 0], [0, 0, 0]]"
  "feat_label_ids example_features = Some [1, 0]"
  "pooled_output example_env [[101, 2023, 102], [101, 2919, 102]] [[1, 1, 1], [1, 1, 1]]
     [[0, 0, 0], [0, 0, 0]] = Inr example_pooled"
  "list_all (\<lambda>r. length r = pooled_width example_env) example_pooled"
  "length [1, 0 :: int] = length example_pooled"
  by (simp_all add: example_features_def example_env_def example_pooled_def)

text \<open>
  C1. On a batch that the hub module accepts (the four keys present, pooled rows of the
  module's width, at least one label class, one label per example), model_fn returns in
  each of the three modes, and the bundle has the structure of its mode. PREDICT: the
  predictions mapping with exactly the keys "probabilities" and "labels", holding the
  log_probs and the predicted labels that create_model returned; no loss, no training
  step, no metrics. TRAIN: the loss that create_model returned and the training step
  that create_optimizer built from it; no metrics bundle, no predictions. EVAL: the same
  loss and the mapping that metric_fn returned on the label ids and the predicted labels,
  with its nine keys; no training step, no predictions.
\<close>

theorem model_fn_output_by_mode:
  assumes "feat_input_ids features = Some input_ids"
    and "feat_input_mask features = Some input_mask"
    and "feat_segment_ids features = Some segment_ids"
    and "feat_label_ids features = Some label_ids"
    and "pooled_output e input_ids input_mask segment_ids = Inr pooled"
    and "list_all (\<lambda>r. length r = pooled_width e) pooled"
    and "0 < num_labels"
    and "length label_ids = length pooled"
  shows "\<exists>spec_p g_p spec_t g_t spec_e g_e predictions loss predicted_labels log_probs g_c metrics.
     model_fn e num_labels learning_rate num_train_steps num_warmup_steps features labels
       ModeKeys_PREDICT params g = Inr (spec_p, g_p) \<and>
     spec_predictions spec_p = Some predictions \<and>
     dom predictions = {''probabilities'', ''labels''} \<and>
     spec_loss spec_p = None \<and> spec_train_op spec_p = None \<and>
     spec_eval_metric_ops spec_p = None \<and>
     model_fn e num_labels learning_rate num_train_steps num_warmup_steps features labels
       ModeKeys_TRAIN params g = Inr (spec_t, g_t) \<and>
     spec_loss spec_t \<noteq> None \<and> spec_train_op spec_t \<noteq> None \<and>
     spec_eval_metric_ops spec_t = None \<and> spec_predictions spec_t = None \<and>
     model_fn e num_labels learning_rate num_train_steps num_warmup_steps features labels
       ModeKeys_EVAL params g = Inr (spec_e, g_e) \<and>
     spec_loss spec_e \<noteq> None \<and> spec_eval_metric_ops spec_e \<noteq> None \<and>
     spec_train_op spec_e = None \<and> spec_predictions spec_e = None \<and>
     create_model e True input_ids input_mask segment_ids label_ids num_labels g
       = Inr (LabelsAndProbs predicted_labels log_probs, g_p) \<and>
     spec_p = \<lparr>spec_mode = ModeKeys_PREDICT, spec_predictions = Some predictions,
               spec_loss = None, spec_train_op = None, spec_eval_metric_ops = None\<rparr> \<and>
     predictions ''probabilities'' = Some (Float_tensor log_probs) \<and>
     predictions ''labels'' = Some (Int_tensor predicted_labels) \<and>
     create_model e False input_ids input_mask segment_ids label_ids num_labels g
       = Inr (LossLabelsAndProbs loss predicted_labels log_probs, g_c) \<and>
     metric_fn label_ids predicted_labels
         (g_c @ [Create_optimizer loss learning_rate num_train_steps num_warmup_steps False])
       = Inr (metrics, g_t) \<and>
     g_e = g_t \<and>
     spec_t = \<lparr>spec_mode = ModeKeys_TRAIN, spec_predictions = None, spec_loss = Some loss,
               spec_train_op = Some (Train_op loss learning_rate num_train_steps num_warmup_steps),
               spec_eval_metric_ops = None\<rparr> \<and>
     spec_e = \<lparr>spec_mode = ModeKeys_EVAL, spec_predictions = None, spec_loss = Some loss,
               spec_train_op = None, spec_eval_metric_ops = Some metrics\<rparr> \<and>
     dom metrics = {''eval_accuracy'', ''f1_score'', ''auc'', ''precision'', ''recall'',
       ''true_positives'', ''true_negatives'', ''false_positives'', ''false_negatives''} \<and>
     metrics ''eval_accuracy'' = Some (Streaming_metric ''accuracy'' label_ids predicted_labels) \<and>
     metrics ''f1_score'' = Some (Streaming_metric ''f1_score'' label_ids predicted_labels) \<and>
     metrics ''auc'' = Some (Streaming_metric ''auc'' label_ids predicted_labels) \<and>
     metrics ''precision'' = Some (Streaming_metric ''precision'' label_ids predicted_labels) \<and>
     metrics ''recall'' = Some (Streaming_metric ''recall'' label_ids predicted_labels) \<and>
     metrics ''true_positives'' = Some (Streaming_metric ''true_positives'' label_ids predicted_labels) \<and>
     metrics ''true_negatives'' = Some (Streaming_metric ''true_negatives'' label_ids predicted_labels) \<and>
     metrics ''false_positives'' = Some (Streaming_metric ''false_positives'' label_ids predicted_labels) \<and>
     metrics ''false_negatives'' = Some (Streaming_metric ''false_negatives'' label_ids predicted_labels)"
  unfolding model_fn_predict [OF assms(1-7)]
    model_fn_train_eval [OF assms ModeKeys_distinct(1)]
    model_fn_train_eval [OF assms ModeKeys_distinct(2)]
    create_model_predict [OF assms(5-7)] create_model_train [OF assms(5-8)]
    metric_fn_result
  using ModeKeys_distinct(3)
  by (simp add: dom_map_of_conv_image_fst insert_commute)

text \<open>The instance of C1 at the example batch.\<close>

theorem model_fn_output_by_mode_example:
  "\<exists>spec_p g_p spec_t g_t spec_e g_e predictions loss predicted_labels log_probs g_c metrics.
     model_fn example_env 2 (1 / 50000) 100 10 example_features ()
       ModeKeys_PREDICT () [] = Inr (spec_p, g_p) \<and>
     spec_predictions spec_p = Some predictions \<and>
     dom predictions = {''probabilities'', ''labels''} \<and>
     spec_loss spec_p = None \<and> spec_train_op spec_p = None \<and>
     spec_eval_metric_ops spec_p = None \<and>
     model_fn example_env 2 (1 / 50000) 100 10 example_features ()
       ModeKeys_TRAIN () [] = Inr (spec_t, g_t) \<and>
     spec_loss spec_t \<noteq> None \<and> spec_train_op spec_t \<noteq> None \<and>
     spec_eval_metric_ops spec_t = None \<and> spec_predictions spec_t = None \<and>
     model_fn example_env 2 (1 / 50000) 100 10 example_features ()
       ModeKeys_EVAL () [] = Inr (spec_e, g_e) \<and>
     spec_loss spec_e \<noteq> None \<and> spec_eval_metric_ops spec_e \<noteq> None \<and>
     spec_train_op spec_e = None \<and> spec_predictions spec_e = None \<and>
     create_model example_env True [[101, 2023, 102], [101, 2919, 102]]
         [[1, 1, 1], [1, 1, 1]] [[0, 0, 0], [0, 0, 0]] [1, 0] 2 []
       = Inr (LabelsAndProbs predicted_labels log_probs, g_p) \<and>
     spec_p = \<lparr>spec_mode = ModeKeys_PREDICT, spec_predictions = Some predictions,
               spec_loss = None, spec_train_op = None, spec_eval_metric_ops = None\<rparr> \<and>
     predictions ''probabilities'' = Some (Float_tensor log_probs) \<and>
     predictions ''labels'' = Some (Int_tensor predicted_labels) \<and>
     create_model example_env False [[101, 2023, 102], [101, 2919, 102]]
         [[1, 1, 1], [1, 1, 1]] [[0, 0, 0], [0, 0, 0]] [1, 0] 2 []
       = Inr (LossLabelsAndProbs loss predicted_labels log_probs, g_c) \<and>
     metric_fn [1, 0] predicted_labels
         (g_c @ [Create_optimizer loss (1 / 50000) 100 10 False])
       = Inr (metrics, g_t) \<and>
     g_e = g_t \<and>
     spec_t = \<lparr>spec_mode = ModeKeys_TRAIN, spec_predictions = None, spec_loss = Some loss,
               spec_train_op = Some (Train_op loss (1 / 50000) 100 10),
               spec_eval_metric_ops = None\<rparr> \<and>
     spec_e = \<lparr>spec_mode = ModeKeys_EVAL, spec_predictions = None, spec_loss = Some loss,
               spec_train_op = None, spec_eval_metric_ops = Some metrics\<rparr> \<and>
     dom metrics = {''eval_accuracy'', ''f1_score'', ''auc'', ''precision'', ''recall'',
       ''true_positives'', ''true_negatives'', ''false_positives'', ''false_negatives''} \<and>
     metrics ''eval_accuracy'' = Some (Streaming_metric ''accuracy'' [1, 0] predicted_labels) \<and>
     metrics ''f1_score'' = Some (Streaming_metric ''f1_score'' [1, 0] predicted_labels) \<and>
     metrics ''auc'' = Some (Streaming_metric ''auc'' [1, 0] predicted_labels) \<and>
     metrics ''precision'' = Some (Streaming_metric ''precision'' [1, 0] predicted_labels) \<and>
     metrics ''recall'' = Some (Streaming_metric ''recall'' [1, 0] predicted_labels) \<and>
     metrics ''true_positives'' = Some (Streaming_metric ''true_positives'' [1, 0] predicted_labels) \<and>
     metrics ''true_negatives'' = Some (Streaming_metric ''true_negatives'' [1, 0] predicted_labels) \<and>
     metrics ''false_positives'' = Some (Streaming_metric ''false_positives'' [1, 0] predicted_labels) \<and>
     metrics ''false_negatives'' = Some (Streaming_metric ''false_negatives'' [1, 0] predicted_labels)"
  by (rule model_fn_output_by_mode [OF example_valid(1-6) _ example_valid(7)]) simp

lemma filter_is_metric_head_ops: "filter is_metric (head_ops e labels n) = []"
  by (simp add: head_ops_def)

lemma filter_is_metric_loss_ops: "filter is_metric loss_ops = []"
  by (simp add: loss_ops_def)

lemma filter_is_metric_metric_ops: "filter is_metric (metric_ops l p) = metric_ops l p"
  by (simp add: metric_ops_def)

lemma length_metric_ops: "length (metric_ops l p) = 9"
  by (simp add: metric_ops_def)

text \<open>
  C2, as stated, fails in TRAIN mode: at the example batch the graph that model_fn builds
  in TRAIN mode holds the nine streaming metrics of metric_fn.
\<close>

theorem metric_fn_invoked_in_train:
  "length (filter is_metric (graph_of
     (model_fn example_env 2 (1 / 50000) 100 10 example_features () ModeKeys_TRAIN () []))) = 9"
  by (simp add: model_fn_train_eval [OF example_valid(1-6) _ example_valid(7) ModeKeys_distinct(1)]
      graph_of_def filter_is_metric_head_ops filter_is_metric_loss_ops
      filter_is_metric_metric_ops length_metric_ops)

text \<open>
  C2, amended. metric_fn is not invoked in PREDICT mode: no streaming metric joins the
  graph. In TRAIN mode it is invoked exactly as in EVAL mode, on the label ids and the
  predicted labels; the TRAIN bundle leaves its result out, the EVAL bundle carries it.
\<close>

theorem metric_fn_only_skipped_in_predict:
  assumes "feat_input_ids features = Some input_ids"
    and "feat_input_mask features = Some input_mask"
    and "feat_segment_ids features = Some segment_ids"
    and "feat_label_ids features = Some label_ids"
    and "pooled_output e input_ids input_mask segment_ids = Inr pooled"
    and "list_all (\<lambda>r. length r = pooled_width e) pooled"
    and "0 < num_labels"
    and "length label_ids = length pooled"
  shows "\<exists>spec_p ops_p spec_t ops_t spec_e ops_e.
     model_fn e num_labels learning_rate num_train_steps num_warmup_steps features labels
       ModeKeys_PREDICT params g = Inr (spec_p, g @ ops_p) \<and>
     filter is_metric ops_p = [] \<and>
     model_fn e num_labels learning_rate num_train_steps num_warmup_steps features labels
       ModeKeys_TRAIN params g = Inr (spec_t, g @ ops_t) \<and>
     filter is_metric ops_t = metric_ops label_ids (head_predicted_labels e pooled num_labels) \<and>
     spec_eval_metric_ops spec_t = None \<and>
     model_fn e num_labels learning_rate num_train_steps num_warmup_steps features labels
       ModeKeys_EVAL params g = Inr (spec_e, g @ ops_e) \<and>
     filter is_metric ops_e = metric_ops label_ids (head_predicted_labels e pooled num_labels) \<and>
     spec_eval_metric_ops spec_e \<noteq> None"
  unfolding model_fn_predict [OF assms(1-7)]
    model_fn_train_eval [OF assms ModeKeys_distinct(1)]
    model_fn_train_eval [OF assms ModeKeys_distinct(2)]
  using ModeKeys_distinct(3)
  by (simp add: filter_is_metric_head_ops filter_is_metric_loss_ops filter_is_metric_metric_ops)

text \<open>The instance of the amended C2 at the example batch.\<close>

theorem metric_fn_only_skipped_in_predict_example:
  "\<exists>spec_p ops_p spec_t ops_t spec_e ops_e.
     model_fn example_env 2 (1 / 50000) 100 10 example_features () ModeKeys_PREDICT () []
       = Inr (spec_p, [] @ ops_p) \<and>
     filter is_metric ops_p = [] \<and>
     model_fn example_env 2 (1 / 50000) 100 10 example_features () ModeKeys_TRAIN () []
       = Inr (spec_t, [] @ ops_t) \<and>
     filter is_metric ops_t = metric_ops [1, 0] (head_predicted_labels example_env example_pooled 2) \<and>
     spec_eval_metric_ops spec_t = None \<and>
     model_fn example_env 2 (1 / 50000) 100 10 example_features () ModeKeys_EVAL () []
       = Inr (spec_e, [] @ ops_e) \<and>
     filter is_metric ops_e = metric_ops [1, 0] (head_predicted_labels example_env example_pooled 2) \<and>
     spec_eval_metric_ops spec_e \<noteq> None"
  by (rule metric_fn_only_skipped_in_predict [OF example_valid(1-6) _ example_valid(7)]) simp

lemma filter_is_create_optimizer_ops:
  "filter is_create_optimizer (head_ops e labels n) = []"
  "filter is_create_optimizer loss_ops = []"
  "filter is_create_optimizer (metric_ops l p) = []"
  by (simp_all add: head_ops_def loss_ops_def metric_ops_def)

text \<open>
  C10. On a batch on which no call raises, EVAL mode makes the same library calls as
  TRAIN mode, in the same order: in particular the one call of the optimizer constructor,
  on the loss, the learning rate and the two step counts. The TRAIN bundle holds the
  training step it returned; the EVAL bundle holds the loss and the metrics bundle, and
  neither a training step nor predictions.
\<close>

theorem optimizer_built_in_eval:
  assumes "feat_input_ids features = Some input_ids"
    and "feat_input_mask features = Some input_mask"
    and "feat_segment_ids features = Some segment_ids"
    and "feat_label_ids features = Some label_ids"
    and "pooled_output e input_ids input_mask segment_ids = Inr pooled"
    and "list_all (\<lambda>r. length r = pooled_width e) pooled"
    and "0 < num_labels"
    and "length label_ids = length pooled"
  shows "\<exists>spec_t spec_e ops loss.
     model_fn e num_labels learning_rate num_train_steps num_warmup_steps features labels
       ModeKeys_TRAIN params g = Inr (spec_t, g @ ops) \<and>
     model_fn e num_labels learning_rate num_train_steps num_warmup_steps features labels
       ModeKeys_EVAL params g = Inr (spec_e, g @ ops) \<and>
     filter is_create_optimizer ops =
       [Create_optimizer loss learning_rate num_train_steps num_warmup_steps False] \<and>
     spec_loss spec_t = Some loss \<and>
     spec_train_op spec_t = Some (Train_op loss learning_rate num_train_steps num_warmup_steps) \<and>
     spec_loss spec_e = Some loss \<and>
     spec_train_op spec_e = None \<and>
     spec_eval_metric_ops spec_e \<noteq> None \<and>
     spec_predictions spec_e = None"
  unfolding model_fn_train_eval [OF assms ModeKeys_distinct(1)]
    model_fn_train_eval [OF assms ModeKeys_distinct(2)]
  using ModeKeys_distinct(3)
  by (simp add: filter_is_create_optimizer_ops)

text \<open>The instance of C10 at the example batch.\<close>

theorem optimizer_built_in_eval_example:
  "\<exists>spec_t spec_e ops loss.
     model_fn example_env 2 (1 / 50000) 100 10 example_features () ModeKeys_TRAIN () []
       = Inr (spec_t, [] @ ops) \<and>
     model_fn example_env 2 (1 / 50000) 100 10 example_features () ModeKeys_EVAL () []
       = Inr (spec_e, [] @ ops) \<and>
     filter is_create_optimizer ops = [Create_optimizer loss (1 / 50000) 100 10 False] \<and>
     spec_loss spec_t = Some loss \<and>
     spec_train_op spec_t = Some (Train_op loss (1 / 50000) 100 10) \<and>
     spec_loss spec_e = Some loss \<and>
     spec_train_op spec_e = None \<and>
     spec_eval_metric_ops spec_e \<noteq> None \<and>
     spec_predictions spec_e = None"
  by (rule optimizer_built_in_eval [OF example_valid(1-6) _ example_valid(7)]) simp

lemma one_hot_in_head_ops: "OneHot labels n \<in> set (head_ops e labels n)"
  by (simp add: head_ops_def)

text \<open>
  C9. A features dictionary without the key "label_ids" makes model_fn raise KeyError,
  whatever the mode, PREDICT included: the four keys are read, in the order input_ids,
  input_mask, segment_ids, label_ids, before the mode is looked at, so the error names
  "label_ids" when the other three keys are there. And a create_model that returns with
  is_predicting true has applied tf.one_hot to its labels argument.
\<close>

theorem label_ids_required_in_every_mode:
  assumes "feat_label_ids features = None"
  shows "model_fn e num_labels learning_rate num_train_steps num_warmup_steps features labels
           mode params g =
         Inl (KeyError
           (if feat_input_ids features = None then ''input_ids''
            else if feat_input_mask features = None then ''input_mask''
            else if feat_segment_ids features = None then ''segment_ids''
            else ''label_ids'')) \<and>
       (\<forall>r g'. create_model e True input_ids input_mask segment_ids label_ids num_labels g
            = Inr (r, g') \<longrightarrow>
          (\<exists>ops. g' = g @ ops \<and> OneHot label_ids num_labels \<in> set ops))"
proof
  show "model_fn e num_labels learning_rate num_train_steps num_warmup_steps features labels
           mode params g =
         Inl (KeyError
           (if feat_input_ids features = None then ''input_ids''
            else if feat_input_mask features = None then ''input_mask''
            else if feat_segment_ids features = None then ''segment_ids''
            else ''label_ids''))"
    using assms by (simp add: model_fn_def bind_def getitem_def split: option.splits)
next
  show "\<forall>r g'. create_model e True input_ids input_mask segment_ids label_ids num_labels g
            = Inr (r, g') \<longrightarrow>
          (\<exists>ops. g' = g @ ops \<and> OneHot label_ids num_labels \<in> set ops)"
    using create_model_graph [of e True input_ids input_mask segment_ids label_ids num_labels g]
      one_hot_in_head_ops [of label_ids num_labels e]
    by auto
qed

text \<open>
  The instance of C9 at the example features with "label_ids" removed, in the three
  modes, and at the example batch for create_model.
\<close>

theorem label_ids_required_in_every_mode_example:
  "model_fn example_env 2 (1 / 50000) 100 10 (example_features\<lparr>feat_label_ids := None\<rparr>) ()
      ModeKeys_PREDICT () [] = Inl (KeyError ''label_ids'') \<and>
   model_fn example_env 2 (1 / 50000) 100 10 (example_features\<lparr>feat_label_ids := None\<rparr>) ()
      ModeKeys_TRAIN () [] = Inl (KeyError ''label_ids'') \<and>
   model_fn example_env 2 (1 / 50000) 100 10 (example_features\<lparr>feat_label_ids := None\<rparr>) ()
      ModeKeys_EVAL () [] = Inl (KeyError ''label_ids'') \<and>
   (\<exists>r ops. create_model example_env True [[101, 2023, 102], [101, 2919, 102]]
        [[1, 1, 1], [1, 1, 1]] [[0, 0, 0], [0, 0, 0]] [1, 0] 2 [] = Inr (r, [] @ ops) \<and>
      OneHot [1, 0] 2 \<in> set ops)"
proof -
  let ?f = "example_features\<lparr>feat_label_ids := None\<rparr>"
  have none: "feat_label_ids ?f = None" by simp
  have keys: "feat_input_ids ?f \<noteq> None" "feat_input_mask ?f \<noteq> None"
    "feat_segment_ids ?f \<noteq> None"
    by (simp_all add: example_features_def)
  note inst = label_ids_required_in_every_mode [OF none, of example_env 2 "1 / 50000" 100 10 "()" _ "()" "[]"
      "[[101, 2023, 102], [101, 2919, 102]]" "[[1, 1, 1], [1, 1, 1]]" "[[0, 0, 0], [0, 0, 0]]" "[1, 0]"]
  have ret: "create_model example_env True [[101, 2023, 102], [101, 2919, 102]]
        [[1, 1, 1], [1, 1, 1]] [[0, 0, 0], [0, 0, 0]] [1, 0] 2 [] =
      Inr (LabelsAndProbs (head_predicted_labels example_env example_pooled 2)
            (head_log_probs example_env example_pooled 2), [] @ head_ops example_env [1, 0] 2)"
    by (rule create_model_predict [OF example_valid(5,6)]) simp
  show ?thesis
    using inst [of ModeKeys_PREDICT] inst [of ModeKeys_TRAIN] inst [of ModeKeys_EVAL] keys ret
    by auto
qed

section \<open>create_model: log-probabilities, predicted labels, loss\<close>

lemma sum_list_exp_nonneg: "0 \<le> sum_list (map exp (r :: real list))"
  by (induction r) simp_all

lemma sum_list_exp_pos: "r \<noteq> [] \<Longrightarrow> 0 < sum_list (map exp (r :: real list))"
  by (cases r) (simp_all add: add_pos_nonneg sum_list_exp_nonneg)

lemma exp_le_sum_list_exp: "x \<in> set r \<Longrightarrow> exp x \<le> sum_list (map exp (r :: real list))"
proof (induction r)
  case Nil
  then show ?case by simp
next
  case (Cons a r)
  show ?case
  proof (cases "x = a")
    case True
    then show ?thesis using sum_list_exp_nonneg [of r] by simp
  next
    case False
    with Cons have "exp x \<le> sum_list (map exp r)" by simp
    then show ?thesis by (simp add: add_increasing)
  qed
qed

lemma log_softmax_row_normalised:
  fixes r :: "real list"
  assumes "r \<noteq> []"
  shows "sum_list (map exp (map (\<lambda>x. x - ln (sum_list (map exp r))) r)) = 1"
proof -
  define S where "S = sum_list (map exp r)"
  have pos: "0 < S" unfolding S_def by (rule sum_list_exp_pos [OF assms])
  have eq: "exp (x - ln S) = exp x * inverse S" for x
    using pos by (simp add: exp_diff divide_inverse)
  have "sum_list (map exp (map (\<lambda>x. x - ln S) r)) = sum_list (map (\<lambda>x. exp x * inverse S) r)"
    by (simp add: comp_def eq)
  also have "\<dots> = S * inverse S"
    unfolding S_def by (simp add: sum_list_mult_const)
  finally show ?thesis using pos by (simp add: S_def)
qed

lemma log_softmax_row_nonpos:
  fixes r :: "real list"
  assumes "x \<in> set r"
  shows "x - ln (sum_list (map exp r)) \<le> 0"
proof -
  have le: "exp x \<le> sum_list (map exp r)" by (rule exp_le_sum_list_exp [OF assms])
  have "0 < exp x" by simp
  with le have "ln (exp x) \<le> ln (sum_list (map exp r))"
    by (intro ln_mono) simp_all
  then show ?thesis by simp
qed

lemma argmax_row_is_max:
  assumes "r \<noteq> []"
  shows "0 \<le> argmax_row r \<and> nat (argmax_row r) < length r \<and>
         r ! nat (argmax_row r) = Max (set r)"
proof -
  let ?P = "\<lambda>x. x < Max (set r)"
  let ?k = "length (takeWhile ?P r)"
  have "Max (set r) \<in> set r" using assms by (intro Max_in) auto
  then have "\<not> (\<forall>x\<in>set r. ?P x)" by auto
  then have "takeWhile ?P r \<noteq> r" by simp
  then have lt: "?k < length r"
    using length_takeWhile_le [of ?P r] by (metis le_neq_implies_less takeWhile_eq_take take_all_iff le_refl)
  then have "\<not> ?P (r ! ?k)" by (rule nth_length_takeWhile)
  moreover have "r ! ?k \<le> Max (set r)" using lt by (intro Max_ge) auto
  ultimately have "r ! ?k = Max (set r)" by simp
  with lt show ?thesis by (simp add: argmax_row_def)
qed

lemma head_log_probs_rows:
  "list_all (\<lambda>row. length row = n) (head_log_probs e pooled n)"
  unfolding head_log_probs_def by (rule log_softmax_rows [OF logits_rows])

lemma length_head_log_probs: "length (head_log_probs e pooled n) = length pooled"
  by (simp add: head_log_probs_def length_log_softmax length_head_logits)

lemma head_log_probs_normalised:
  assumes "0 < n"
  shows "list_all (\<lambda>row. length row = n \<and> sum_list (map exp row) = 1) (head_log_probs e pooled n)"
proof -
  have "sum_list (map exp (map (\<lambda>x. x - ln (sum_list (map exp r))) r)) = 1"
    if "r \<in> set (head_logits e pooled n)" for r
  proof -
    have "length r = n" using that logits_rows [of n e pooled] by (simp add: list_all_iff)
    with assms have "r \<noteq> []" by auto
    then show ?thesis by (rule log_softmax_row_normalised)
  qed
  moreover have "length r = n" if "r \<in> set (head_logits e pooled n)" for r
    using that logits_rows [of n e pooled] by (simp add: list_all_iff)
  ultimately show ?thesis
    by (simp add: head_log_probs_def log_softmax_def list_all_iff)
qed

lemma head_log_probs_nonpos:
  assumes "row \<in> set (head_log_probs e pooled n)" and "x \<in> set row"
  shows "x \<le> 0"
  using assms log_softmax_row_nonpos
  by (auto simp: head_log_probs_def log_softmax_def)

text \<open>
  C8. On a valid batch (the hub module accepts it and returns rows of its width, there
  is at least one label class, and outside prediction there is one label per example),
  create_model returns, log_probs has one row of num_labels entries per example, and the
  exponentials of every row sum to 1.
\<close>

theorem log_probs_rows_sum_to_one:
  assumes "pooled_output e input_ids input_mask segment_ids = Inr pooled"
    and "list_all (\<lambda>r. length r = pooled_width e) pooled"
    and "0 < num_labels"
    and "is_predicting \<or> length labels = length pooled"
  shows "\<exists>r g'. create_model e is_predicting input_ids input_mask segment_ids labels num_labels g
           = Inr (r, g') \<and>
         length (log_probs_of r) = length pooled \<and>
         list_all (\<lambda>row. length row = num_labels \<and> sum_list (map exp row) = 1) (log_probs_of r)"
proof (cases is_predicting)
  case True
  then show ?thesis
    using create_model_predict [OF assms(1-3), of labels g]
      head_log_probs_normalised [OF assms(3), of e pooled]
    by (simp add: length_head_log_probs)
next
  case False
  with assms(4) have len: "length labels = length pooled" by simp
  from False show ?thesis
    using create_model_train [OF assms(1-3) len, of g]
      head_log_probs_normalised [OF assms(3), of e pooled]
    by (simp add: length_head_log_probs)
qed

text \<open>The instance of C8 at the example batch.\<close>

theorem log_probs_rows_sum_to_one_example:
  "\<exists>r g'. create_model example_env False [[101, 2023, 102], [101, 2919, 102]]
        [[1, 1, 1], [1, 1, 1]] [[0, 0, 0], [0, 0, 0]] [1, 0] 2 [] = Inr (r, g') \<and>
     length (log_probs_of r) = length example_pooled \<and>
     list_all (\<lambda>row. length row = 2 \<and> sum_list (map exp row) = 1) (log_probs_of r)"
  by (rule log_probs_rows_sum_to_one [OF example_valid(5,6)]) (simp_all add: example_pooled_def)

lemma argmax_rows:
  assumes "list_all (\<lambda>row. row \<noteq> []) x"
  shows "list_all2 (\<lambda>i row. 0 \<le> i \<and> nat i < length row \<and> row ! nat i = Max (set row))
           (map argmax_row x) x"
  using assms by (induction x) (simp_all add: argmax_row_is_max)

text \<open>
  C4. On a valid batch, create_model returns, and its predicted_labels are the squeezed
  vector of one index per example, each index a position of its row of log_probs that
  holds the row's maximum: a vector of indices, or, for a batch of one example, the
  single index as a scalar.
\<close>

theorem predicted_labels_are_argmax:
  assumes "pooled_output e input_ids input_mask segment_ids = Inr pooled"
    and "list_all (\<lambda>r. length r = pooled_width e) pooled"
    and "0 < num_labels"
    and "is_predicting \<or> length labels = length pooled"
  shows "\<exists>r g' indices.
         create_model e is_predicting input_ids input_mask segment_ids labels num_labels g
           = Inr (r, g') \<and>
         length indices = length pooled \<and>
         list_all2 (\<lambda>i row. 0 \<le> i \<and> nat i < length row \<and> row ! nat i = Max (set row))
           indices (log_probs_of r) \<and>
         predicted_labels_of r = (if length pooled = 1 then Int0 (hd indices) else Int1 indices)"
proof -
  let ?lp = "head_log_probs e pooled num_labels"
  let ?ix = "map argmax_row ?lp"
  have ne: "list_all (\<lambda>row. row \<noteq> []) ?lp"
    using head_log_probs_rows [of num_labels e pooled] assms(3) by (auto simp: list_all_iff)
  have sq: "head_predicted_labels e pooled num_labels
      = (if length pooled = 1 then Int0 (hd ?ix) else Int1 ?ix)"
    using length_head_log_probs [of e pooled num_labels]
    by (cases ?lp) (auto simp: head_predicted_labels_def squeeze_def split: list.splits)
  have res: "\<exists>r g'. create_model e is_predicting input_ids input_mask segment_ids labels num_labels g
      = Inr (r, g') \<and> log_probs_of r = ?lp \<and>
      predicted_labels_of r = head_predicted_labels e pooled num_labels"
  proof (cases is_predicting)
    case True
    then show ?thesis using create_model_predict [OF assms(1-3), of labels g] by simp
  next
    case False
    with assms(4) have len: "length labels = length pooled" by simp
    from False show ?thesis using create_model_train [OF assms(1-3) len, of g] by simp
  qed
  then obtain r g' where r: "create_model e is_predicting input_ids input_mask segment_ids labels
      num_labels g = Inr (r, g')" "log_probs_of r = ?lp"
      "predicted_labels_of r = head_predicted_labels e pooled num_labels"
    by blast
  show ?thesis
    using r sq argmax_rows [OF ne] length_head_log_probs [of e pooled num_labels]
    by (intro exI [of _ r] exI [of _ g'] exI [of _ ?ix]) simp
qed

text \<open>The instance of C4 at the example batch.\<close>

theorem predicted_labels_are_argmax_example:
  "\<exists>r g' indices.
     create_model example_env True [[101, 2023, 102], [101, 2919, 102]]
        [[1, 1, 1], [1, 1, 1]] [[0, 0, 0], [0, 0, 0]] [1, 0] 2 [] = Inr (r, g') \<and>
     length indices = length example_pooled \<and>
     list_all2 (\<lambda>i row. 0 \<le> i \<and> nat i < length row \<and> row ! nat i = Max (set row))
       indices (log_probs_of r) \<and>
     predicted_labels_of r = (if length example_pooled = 1 then Int0 (hd indices) else Int1 indices)"
  by (rule predicted_labels_are_argmax [OF example_valid(5,6)]) simp_all

lemma dropout_nth:
  assumes "i < length x" and "j < length (x ! i)"
  shows "dropout u x k ! i ! j = x ! i ! j / k * of_int \<lfloor>k + u i j\<rfloor>"
  using assms by (simp add: dropout_def)

lemma length_dropout_nth: "i < length x \<Longrightarrow> length (dropout u x k ! i) = length (x ! i)"
  by (simp add: dropout_def)

lemma filter_is_dropout_ops:
  "filter is_dropout (head_ops e labels n) = [Dropout (9 / 10)]"
  "filter is_dropout loss_ops = []"
  by (simp_all add: head_ops_def loss_ops_def)

text \<open>
  C6. On a valid batch, create_model with is_predicting true and with is_predicting
  false makes the same calls up to the branch, among them one tf.nn.dropout with
  keep_prob 0.9 (the calls after the branch hold none), and returns the same
  log_probs and predicted labels: the log-softmax of the logits of the pooled batch
  after dropout, where every unit is divided by 0.9 and multiplied by
  floor(0.9 + u), u the unit's uniform draw. Nothing in create_model looks at the mode
  before the dropout.
\<close>

theorem dropout_applied_in_every_mode:
  assumes "pooled_output e input_ids input_mask segment_ids = Inr pooled"
    and "list_all (\<lambda>r. length r = pooled_width e) pooled"
    and "0 < num_labels"
    and "length labels = length pooled"
  shows "\<exists>predicted_labels log_probs loss ops dropped.
     create_model e True input_ids input_mask segment_ids labels num_labels g
       = Inr (LabelsAndProbs predicted_labels log_probs, g @ ops) \<and>
     create_model e False input_ids input_mask segment_ids labels num_labels g
       = Inr (LossLabelsAndProbs loss predicted_labels log_probs, g @ ops @ loss_ops) \<and>
     filter is_dropout ops = [Dropout (9 / 10)] \<and>
     filter is_dropout loss_ops = [] \<and>
     log_probs = log_softmax
       (map (\<lambda>r. map2 (+) (map (dot r) (output_weights_value e num_labels))
                   (output_bias_value e num_labels)) dropped) \<and>
     length dropped = length pooled \<and>
     (\<forall>i < length pooled. length (dropped ! i) = length (pooled ! i) \<and>
        (\<forall>j < length (pooled ! i).
           dropped ! i ! j = pooled ! i ! j / (9 / 10) * of_int \<lfloor>9 / 10 + random_uniform e i j\<rfloor>))"
proof -
  let ?d = "dropout (random_uniform e) pooled (9 / 10)"
  have len: "\<forall>i < length pooled. length (?d ! i) = length (pooled ! i)"
    by (simp add: length_dropout_nth)
  show ?thesis
    unfolding create_model_predict [OF assms(1-3)] create_model_train [OF assms]
    using len
    by (intro exI [of _ "head_predicted_labels e pooled num_labels"]
        exI [of _ "head_log_probs e pooled num_labels"]
        exI [of _ "head_loss e pooled labels num_labels"]
        exI [of _ "head_ops e labels num_labels"] exI [of _ ?d])
      (simp add: filter_is_dropout_ops head_log_probs_def head_logits_def length_dropout
        dropout_nth)
qed

text \<open>
  The instance of C6 at the example batch, where the draw keeps every unit: the pooled
  rows [3, 1] become [10/3, 10/9].
\<close>

theorem dropout_applied_in_every_mode_example:
  "\<exists>predicted_labels log_probs loss ops dropped.
     create_model example_env True [[101, 2023, 102], [101, 2919, 102]]
        [[1, 1, 1], [1, 1, 1]] [[0, 0, 0], [0, 0, 0]] [1, 0] 2 []
       = Inr (LabelsAndProbs predicted_labels log_probs, [] @ ops) \<and>
     create_model example_env False [[101, 2023, 102], [101, 2919, 102]]
        [[1, 1, 1], [1, 1, 1]] [[0, 0, 0], [0, 0, 0]] [1, 0] 2 []
       = Inr (LossLabelsAndProbs loss predicted_labels log_probs, [] @ ops @ loss_ops) \<and>
     filter is_dropout ops = [Dropout (9 / 10)] \<and>
     filter is_dropout loss_ops = [] \<and>
     log_probs = log_softmax
       (map (\<lambda>r. map2 (+) (map (dot r) (output_weights_value example_env 2))
                   (output_bias_value example_env 2)) dropped) \<and>
     length dropped = length example_pooled \<and>
     dropped = [[10 / 3, 10 / 9], [10 / 3, 10 / 9]]"
proof -
  have d: "dropout (random_uniform example_env) example_pooled (9 / 10)
      = [[10 / 3, 10 / 9], [10 / 3, 10 / 9]]"
    by (simp add: dropout_def example_env_def example_pooled_def upt_rec)
  obtain predicted_labels log_probs loss ops dropped where h:
     "create_model example_env True [[101, 2023, 102], [101, 2919, 102]]
        [[1, 1, 1], [1, 1, 1]] [[0, 0, 0], [0, 0, 0]] [1, 0] 2 []
       = Inr (LabelsAndProbs predicted_labels log_probs, [] @ ops)"
     "create_model example_env False [[101, 2023, 102], [101, 2919, 102]]
        [[1, 1, 1], [1, 1, 1]] [[0, 0, 0], [0, 0, 0]] [1, 0] 2 []
       = Inr (LossLabelsAndProbs loss predicted_labels log_probs, [] @ ops @ loss_ops)"
     "filter is_dropout ops = [Dropout (9 / 10)]"
     "filter is_dropout loss_ops = []"
     "log_probs = log_softmax
       (map (\<lambda>r. map2 (+) (map (dot r) (output_weights_value example_env 2))
                   (output_bias_value example_env 2)) dropped)"
     "length dropped = length example_pooled"
     "\<forall>i < length example_pooled. length (dropped ! i) = length (example_pooled ! i) \<and>
        (\<forall>j < length (example_pooled ! i).
           dropped ! i ! j = example_pooled ! i ! j / (9 / 10) *
             of_int \<lfloor>9 / 10 + random_uniform example_env i j\<rfloor>)"
    using dropout_applied_in_every_mode [OF example_valid(5,6) _ example_valid(7), of 2 "[]"]
    by auto
  have "dropped = dropout (random_uniform example_env) example_pooled (9 / 10)"
    using h(6,7)
    by (auto simp: list_eq_iff_nth_eq length_dropout length_dropout_nth dropout_nth)
  with d h show ?thesis by blast
qed

lemma per_example_loss_eq:
  "negative (reduce_sum (map2 (map2 (*)) (one_hot labels n) lp)) =
   map2 (\<lambda>l row. - sum_list (map2 (*) (map (\<lambda>k. if int k = l then 1 else 0) [0..<n]) row))
     labels lp"
  by (simp add: negative_def reduce_sum_def one_hot_def zip_map1 comp_def case_prod_unfold)

text \<open>
  C3. On a valid batch with one label per example, create_model with is_predicting
  false returns a loss, the predicted labels and log_probs, one row of num_labels
  entries per example; the per-example loss is the
  negated sum, over the label axis, of the products of the label's one-hot encoding of
  depth num_labels with the example's row of log_probs; and the loss is the mean of the
  per-example losses over the batch (NaN when the batch is empty).
\<close>

theorem loss_is_mean_cross_entropy:
  assumes "pooled_output e input_ids input_mask segment_ids = Inr pooled"
    and "list_all (\<lambda>r. length r = pooled_width e) pooled"
    and "0 < num_labels"
    and "length labels = length pooled"
  shows "\<exists>loss predicted_labels log_probs g' per_example_loss.
     create_model e False input_ids input_mask segment_ids labels num_labels g
       = Inr (LossLabelsAndProbs loss predicted_labels log_probs, g') \<and>
     length log_probs = length labels \<and>
     list_all (\<lambda>row. length row = num_labels) log_probs \<and>
     per_example_loss =
       map2 (\<lambda>l row. - sum_list (map2 (*) (map (\<lambda>k. if int k = l then 1 else 0) [0..<num_labels]) row))
         labels log_probs \<and>
     length per_example_loss = length labels \<and>
     loss = (if labels = [] then NaN
             else Num (sum_list per_example_loss / real (length labels)))"
proof -
  have "length (head_log_probs e pooled num_labels) = length labels"
    by (simp add: length_head_log_probs assms(4))
  then have "head_log_probs e pooled num_labels = [] \<longleftrightarrow> labels = []"
    by (metis length_0_conv)
  then show ?thesis
    unfolding create_model_train [OF assms]
    by (simp add: head_loss_def per_example_loss_eq reduce_mean_def length_head_log_probs assms(4)
        head_log_probs_rows)
qed

text \<open>The instance of C3 at the example batch.\<close>

theorem loss_is_mean_cross_entropy_example:
  "\<exists>loss predicted_labels log_probs g' per_example_loss.
     create_model example_env False [[101, 2023, 102], [101, 2919, 102]]
        [[1, 1, 1], [1, 1, 1]] [[0, 0, 0], [0, 0, 0]] [1, 0] 2 []
       = Inr (LossLabelsAndProbs loss predicted_labels log_probs, g') \<and>
     length log_probs = length [1, 0 :: int] \<and>
     list_all (\<lambda>row. length row = 2) log_probs \<and>
     per_example_loss =
       map2 (\<lambda>l row. - sum_list (map2 (*) (map (\<lambda>k. if int k = l then 1 else 0) [0..<2]) row))
         [1, 0] log_probs \<and>
     length per_example_loss = length [1, 0 :: int] \<and>
     loss = (if [1, 0 :: int] = [] then NaN
             else Num (sum_list per_example_loss / real (length [1, 0 :: int])))"
  by (rule loss_is_mean_cross_entropy [OF example_valid(5,6) _ example_valid(7)]) simp

lemma one_hot_dot:
  fixes row :: "real list"
  assumes "0 \<le> l" and "nat l < length row" and "length row = n"
  shows "sum_list (map2 (*) (map (\<lambda>k. if int k = l then 1 else 0) [0..<n]) row) = row ! nat l"
proof -
  have "map2 (*) (map (\<lambda>k. if int k = l then 1 else 0) [0..<n]) row
      = map (\<lambda>k. if k = nat l then row ! k else 0) [0..<n]"
    using assms by (auto simp: list_eq_iff_nth_eq)
  then have "sum_list (map2 (*) (map (\<lambda>k. if int k = l then 1 else 0) [0..<n]) row)
      = (\<Sum>k\<in>{0..<n}. if k = nat l then row ! k else 0)"
    by (simp add: interv_sum_list_conv_sum_set_nat)
  also have "\<dots> = row ! nat l"
    using assms by simp
  finally show ?thesis .
qed

lemma sum_list_le_const:
  fixes xs :: "real list"
  assumes "\<forall>x\<in>set xs. x \<le> c"
  shows "sum_list xs \<le> c * real (length xs)"
  using assms by (induction xs) (auto simp: algebra_simps)

lemma mean_bounds:
  fixes xs :: "real list"
  assumes "xs \<noteq> []"
  shows "(\<forall>x\<in>set xs. 0 \<le> x) \<Longrightarrow> 0 \<le> sum_list xs / real (length xs)"
    and "(\<forall>x\<in>set xs. x \<le> c) \<Longrightarrow> sum_list xs / real (length xs) \<le> c"
proof -
  show "(\<forall>x\<in>set xs. 0 \<le> x) \<Longrightarrow> 0 \<le> sum_list xs / real (length xs)"
    by (simp add: sum_list_nonneg)
  assume "\<forall>x\<in>set xs. x \<le> c"
  then have "sum_list xs \<le> c * real (length xs)" by (rule sum_list_le_const)
  moreover have "0 < real (length xs)" using assms by simp
  ultimately show "sum_list xs / real (length xs) \<le> c"
    by (simp add: pos_divide_le_eq)
qed


text \<open>
  C7, as stated, fails on the empty batch: an empty batch has no label out of range, and
  create_model returns for it the loss NaN, the mean of no per-example loss, which is
  not a non-negative number.
\<close>

theorem loss_of_empty_batch_is_NaN:
  "create_model example_env False [] [] [] [] 2 []
     = Inr (LossLabelsAndProbs NaN (Int1 []) [], head_ops example_env [] 2 @ loss_ops) \<and>
   \<not> scalar_nonneg NaN"
proof -
  have p: "pooled_output example_env [] [] [] = Inr []"
    by (simp add: example_env_def)
  have "create_model example_env False [] [] [] [] 2 []
      = Inr (LossLabelsAndProbs (head_loss example_env [] [] 2)
               (head_predicted_labels example_env [] 2) (head_log_probs example_env [] 2),
             [] @ head_ops example_env [] 2 @ loss_ops)"
    by (rule create_model_train [OF p]) simp_all
  moreover have "head_log_probs example_env [] 2 = []"
    using length_head_log_probs [of example_env "[]" 2] by simp
  ultimately show ?thesis
    by (simp add: head_loss_def head_predicted_labels_def squeeze_def reduce_mean_def
        negative_def reduce_sum_def one_hot_def)
qed

text \<open>
  C7, amended to non-empty batches. On a valid, non-empty batch whose labels all lie in
  [0, num_labels), the loss that create_model returns is a number, it is the mean over
  the batch of the negated log-probability of the true label, and it is non-negative. It
  tends to 0 as the predicted distribution tends to the one-hot encoding of the true
  label: when every example's log-probability of its true label is at least -\<epsilon>, the
  loss is at most \<epsilon> (so it is 0 when they are all 0, that is, when the prediction is
  the one-hot vector of the label).
\<close>

theorem loss_nonnegative:
  assumes "pooled_output e input_ids input_mask segment_ids = Inr pooled"
    and "list_all (\<lambda>r. length r = pooled_width e) pooled"
    and "length labels = length pooled"
    and "labels \<noteq> []"
    and "list_all (\<lambda>l. 0 \<le> l \<and> l < int num_labels) labels"
  shows "\<exists>loss predicted_labels log_probs g'.
     create_model e False input_ids input_mask segment_ids labels num_labels g
       = Inr (LossLabelsAndProbs (Num loss) predicted_labels log_probs, g') \<and>
     0 \<le> loss \<and>
     loss = sum_list (map2 (\<lambda>l row. - (row ! nat l)) labels log_probs) / real (length labels) \<and>
     (\<forall>\<epsilon>. list_all2 (\<lambda>l row. - \<epsilon> \<le> row ! nat l) labels log_probs \<longrightarrow> loss \<le> \<epsilon>)"
proof -
  let ?lp = "head_log_probs e pooled num_labels"
  let ?pel = "map2 (\<lambda>l row. - (row ! nat l)) labels ?lp"
  from assms(4,5) obtain l0 where "0 \<le> l0" "l0 < int num_labels"
    by (cases labels) auto
  then have n: "0 < num_labels" by simp
  have len: "length ?lp = length labels"
    by (simp add: length_head_log_probs assms(3))
  have pair: "0 \<le> l \<and> nat l < length row \<and> length row = num_labels \<and> row \<in> set ?lp"
    if "(l, row) \<in> set (zip labels ?lp)" for l row
  proof -
    have "l \<in> set labels" "row \<in> set ?lp"
      using that by (auto dest: set_zip_leftD set_zip_rightD)
    then show ?thesis
      using assms(5) head_log_probs_rows [of num_labels e pooled]
      by (auto simp: list_all_iff)
  qed
  have eq: "sum_list (map2 (*) (map (\<lambda>k. if int k = l then 1 else 0) [0..<num_labels]) row)
      = row ! nat l" if "(l, row) \<in> set (zip labels ?lp)" for l row
    using pair [OF that] by (intro one_hot_dot) auto
  have pel: "negative (reduce_sum (map2 (map2 (*)) (one_hot labels num_labels) ?lp)) = ?pel"
    unfolding per_example_loss_eq
    by (rule map_cong [OF refl]) (auto simp: eq)
  have ne: "?pel \<noteq> []" using assms(4) len by (cases labels; cases ?lp) auto
  have lenp: "length ?pel = length labels" using len by simp
  have nonneg: "\<forall>x\<in>set ?pel. 0 \<le> x"
  proof
    fix x assume "x \<in> set ?pel"
    then obtain l row where lr: "(l, row) \<in> set (zip labels ?lp)" "x = - (row ! nat l)"
      by auto
    from pair [OF lr(1)] have "row ! nat l \<in> set row" "row \<in> set ?lp" by auto
    then have "row ! nat l \<le> 0" using head_log_probs_nonpos by blast
    with lr(2) show "0 \<le> x" by simp
  qed
  have upper: "sum_list ?pel / real (length labels) \<le> \<epsilon>"
    if "list_all2 (\<lambda>l row. - \<epsilon> \<le> row ! nat l) labels ?lp" for \<epsilon>
  proof -
    have "\<forall>x\<in>set ?pel. x \<le> \<epsilon>"
      using that by (auto simp: list_all2_iff)
    from mean_bounds(2) [OF ne this] show ?thesis using lenp by simp
  qed
  have lower: "0 \<le> sum_list ?pel / real (length labels)"
    using mean_bounds(1) [OF ne nonneg] lenp by simp
  have loss: "head_loss e pooled labels num_labels = Num (sum_list ?pel / real (length labels))"
    using ne lenp by (simp add: head_loss_def pel reduce_mean_def)
  show ?thesis
    unfolding create_model_train [OF assms(1,2) n assms(3)] loss
    using lower upper by simp
qed

lemma example_log_probs:
  "head_log_probs example_env example_pooled 2 =
     [[- ln (1 + exp (10 / 3)), 10 / 3 - ln (1 + exp (10 / 3))],
      [- ln (1 + exp (10 / 3)), 10 / 3 - ln (1 + exp (10 / 3))]]"
  by (simp add: head_log_probs_def log_softmax_def head_logits_def dropout_def dot_def
      output_weights_value_def output_bias_value_def example_env_def example_pooled_def upt_rec)

text \<open>
  The instance of the amended C7 at the example batch, whose log_probs rows are
  [-L, 10/3 - L] with L = ln (1 + exp (10/3)): every true label has log-probability at
  least -L, and the loss is between 0 and L.
\<close>

theorem loss_nonnegative_example:
  "\<exists>loss predicted_labels log_probs g'.
     create_model example_env False [[101, 2023, 102], [101, 2919, 102]]
        [[1, 1, 1], [1, 1, 1]] [[0, 0, 0], [0, 0, 0]] [1, 0] 2 []
       = Inr (LossLabelsAndProbs (Num loss) predicted_labels log_probs, g') \<and>
     0 \<le> loss \<and>
     loss = sum_list (map2 (\<lambda>l row. - (row ! nat l)) [1, 0] log_probs) / real (length [1, 0 :: int]) \<and>
     loss \<le> ln (1 + exp (10 / 3))"
proof -
  have labels: "[1, 0 :: int] \<noteq> []" "list_all (\<lambda>l. 0 \<le> l \<and> l < int 2) [1, 0]"
    by simp_all
  obtain loss predicted_labels log_probs g' where h:
    "create_model example_env False [[101, 2023, 102], [101, 2919, 102]]
        [[1, 1, 1], [1, 1, 1]] [[0, 0, 0], [0, 0, 0]] [1, 0] 2 []
       = Inr (LossLabelsAndProbs (Num loss) predicted_labels log_probs, g')"
    "0 \<le> loss"
    "loss = sum_list (map2 (\<lambda>l row. - (row ! nat l)) [1, 0] log_probs) / real (length [1, 0 :: int])"
    "\<forall>\<epsilon>. list_all2 (\<lambda>l row. - \<epsilon> \<le> row ! nat l) [1, 0] log_probs \<longrightarrow> loss \<le> \<epsilon>"
    using loss_nonnegative [OF example_valid(5,6,7) labels, of "[]"] by blast
  have "log_probs = head_log_probs example_env example_pooled 2"
    using h(1) create_model_train [OF example_valid(5,6) _ example_valid(7), of 2 "[]"] by simp
  then have "list_all2 (\<lambda>l row. - ln (1 + exp (10 / 3)) \<le> row ! nat l) [1, 0] log_probs"
    by (simp add: example_log_probs)
  with h(4) have "loss \<le> ln (1 + exp (10 / 3))" by blast
  with h(1-3) show ?thesis by blast
qed

end
